theory Spec2Isabelle
  imports Main
begin

section \<open>The Windows update provisioner (update/provisioner.go)\<close>

text \<open>
  A shallow embedding of the Packer provisioner that runs Windows update on a remote
  machine and restarts it until no update is pending. Go strings are byte sequences,
  modelled as \<open>string\<close> (a list of 8-bit characters); Go's \<open>int\<close> and
  \<open>time.Duration\<close> (nanoseconds) are modelled as \<open>int\<close>: the code only
  compares them with constants and prints them.
\<close>

subsection \<open>Errors\<close>

text \<open>
  A Go \<open>error\<close> value. \<open>CollabError\<close> is an error handed back by a collaborator
  (the communicator, the template engine, the configuration decoder); \<open>ErrorMsg\<close> is an
  error the provisioner builds itself with \<open>errors.New\<close> or \<open>fmt.Errorf\<close>, holding
  the formatted message; \<open>MultiError\<close> is what \<open>packer.MultiErrorAppend\<close> returns;
  \<open>RetryTimeout\<close> and \<open>RetryCancelled\<close> are the retry executor's own indicators.
\<close>

datatype error =
    CollabError string
  | ErrorMsg string
  | MultiError "error list"
  | RetryTimeout
  | RetryCancelled

subsection \<open>Formatting: \<open>fmt\<close>'s verb \<open>%d\<close>\<close>

fun decimal :: "nat \<Rightarrow> string" where
  "decimal n =
     (if n < 10 then [''0123456789'' ! n]
      else decimal (n div 10) @ [''0123456789'' ! (n mod 10)])"

definition fmt_d :: "int \<Rightarrow> string" where
  "fmt_d i = (if i < 0 then CHR ''-'' # decimal (nat (- i)) else decimal (nat i))"

subsection \<open>\<open>strings.Replace\<close>\<close>

text \<open>
  \<open>strings.Replace(s, old, new, -1)\<close>: every occurrence of \<open>old\<close> in \<open>s\<close>, found
  from left to right without overlap, is replaced by \<open>new\<close>. (The program only calls
  it with a one-byte \<open>old\<close>; the empty \<open>old\<close>, which Go matches between runes, is left
  alone here.)
\<close>

function strings_Replace :: "string \<Rightarrow> string \<Rightarrow> string \<Rightarrow> string" where
  "strings_Replace [] old new = []"
| "strings_Replace (c # cs) old new =
     (if old \<noteq> [] \<and> take (length old) (c # cs) = old
      then new @ strings_Replace (drop (length old) (c # cs)) old new
      else c # strings_Replace cs old new)"
  by pat_completeness auto
termination
  by (relation "measure (\<lambda>(s, old, new). length s)") auto

subsection \<open>The conversion \<open>[]rune(s)\<close>: decoding UTF-8\<close>

text \<open>
  Runes are integers (Go's \<open>int32\<close>). \<open>DecodeRuneInString\<close> follows \<open>unicode/utf8\<close>:
  it returns the first rune of \<open>s\<close> and its width in bytes; an empty string gives
  \<open>(RuneError, 0)\<close>, an encoding that is invalid or cut short gives \<open>(RuneError, 1)\<close>.
  \<open>lead_size\<close> and the accept range of the second byte are the entries of the tables
  \<open>first\<close> and \<open>acceptRanges\<close> for a lead byte in \<open>0xC2 .. 0xF4\<close>.
\<close>

definition RuneError :: int where
  "RuneError = 0xFFFD"

definition lead_size :: "int \<Rightarrow> nat" where
  "lead_size s0 = (if s0 < 0xE0 then 2 else if s0 < 0xF0 then 3 else 4)"

definition accept_lo :: "int \<Rightarrow> int" where
  "accept_lo s0 = (if s0 = 0xE0 then 0xA0 else if s0 = 0xF0 then 0x90 else 0x80)"

definition accept_hi :: "int \<Rightarrow> int" where
  "accept_hi s0 = (if s0 = 0xED then 0x9F else if s0 = 0xF4 then 0x8F else 0xBF)"

definition DecodeRuneInString :: "string \<Rightarrow> int \<times> nat" where
  "DecodeRuneInString s =
     (if s = [] then (RuneError, 0)
      else
        let s0 = of_char (s ! 0) in
        if s0 < 0x80 then (s0, 1)
        else if s0 < 0xC2 \<or> 0xF4 < s0 then (RuneError, 1)
        else
          let sz = lead_size s0 in
          if length s < sz then (RuneError, 1)
          else
            let s1 = of_char (s ! 1) in
            if s1 < accept_lo s0 \<or> accept_hi s0 < s1 then (RuneError, 1)
            else if sz \<le> 2 then ((s0 mod 32) * 64 + s1 mod 64, 2)
            else
              let s2 = of_char (s ! 2) in
              if s2 < 0x80 \<or> 0xBF < s2 then (RuneError, 1)
              else if sz \<le> 3 then ((s0 mod 16) * 4096 + (s1 mod 64) * 64 + s2 mod 64, 3)
              else
                let s3 = of_char (s ! 3) in
                if s3 < 0x80 \<or> 0xBF < s3 then (RuneError, 1)
                else ((s0 mod 8) * 262144 + (s1 mod 64) * 4096 + (s2 mod 64) * 64
                      + s3 mod 64, 4))"

function stringToRunes :: "string \<Rightarrow> int list" where
  "stringToRunes [] = []"
| "stringToRunes (c # cs) =
     (case DecodeRuneInString (c # cs) of (r, w) \<Rightarrow> r # stringToRunes (drop w (c # cs)))"
  by pat_completeness auto
termination
  by (relation "measure length")
     (auto simp: DecodeRuneInString_def Let_def split: if_splits)

subsection \<open>\<open>utf16.Encode\<close>\<close>

text \<open>
  A rune below \<open>0x10000\<close> that is not a surrogate is one 16-bit unit; a rune from
  \<open>0x10000\<close> to \<open>0x10FFFF\<close> is a surrogate pair (\<open>utf16.EncodeRune\<close>); anything
  else becomes the replacement character \<open>U+FFFD\<close>.
\<close>

definition utf16_EncodeRune :: "int \<Rightarrow> int \<times> int" where
  "utf16_EncodeRune r =
     (0xD800 + ((r - 0x10000) div 1024) mod 1024, 0xDC00 + (r - 0x10000) mod 1024)"

fun utf16_Encode :: "int list \<Rightarrow> int list" where
  "utf16_Encode [] = []"
| "utf16_Encode (v # vs) =
     (if (0 \<le> v \<and> v < 0xD800) \<or> (0xE000 \<le> v \<and> v < 0x10000) then v # utf16_Encode vs
      else if 0x10000 \<le> v \<and> v \<le> 0x10FFFF
           then fst (utf16_EncodeRune v) # snd (utf16_EncodeRune v) # utf16_Encode vs
           else 0xFFFD # utf16_Encode vs)"

subsection \<open>\<open>encodeUtf16Le\<close>\<close>

text \<open>
  A byte is a \<open>char\<close>; \<open>byte(r)\<close> keeps the low eight bits, which is what
  \<open>char_of\<close> does. The loop writes the two bytes of unit \<open>i\<close> at \<open>2 * i\<close> and
  \<open>2 * i + 1\<close> of a buffer of \<open>2 * len(d)\<close> bytes.
\<close>

fun encodeUtf16Le_loop :: "nat \<Rightarrow> int list \<Rightarrow> string \<Rightarrow> string" where
  "encodeUtf16Le_loop i [] b = b"
| "encodeUtf16Le_loop i (r # d) b =
     encodeUtf16Le_loop (Suc i) d (b[i * 2 := char_of r, i * 2 + 1 := char_of (r div 256)])"

definition encodeUtf16Le :: "string \<Rightarrow> string" where
  "encodeUtf16Le s =
     (let d = utf16_Encode (stringToRunes s);
          b = replicate (length d * 2) (CHR 0x00)
      in encodeUtf16Le_loop 0 d b)"

subsection \<open>\<open>base64.StdEncoding.EncodeToString\<close>\<close>

definition encodeStd :: string where
  "encodeStd = ''ABCDEFGHIJKLMNOPQRSTUVWXYZabcdefghijklmnopqrstuvwxyz0123456789+/''"

definition b64_char :: "int \<Rightarrow> char" where
  "b64_char v = encodeStd ! nat (v mod 64)"

fun base64_EncodeToString :: "string \<Rightarrow> string" where
  "base64_EncodeToString (a # b # c # src) =
     (let v = of_char a * 65536 + of_char b * 256 + of_char c in
      b64_char (v div 262144) # b64_char (v div 4096) # b64_char (v div 64) # b64_char v
        # base64_EncodeToString src)"
| "base64_EncodeToString [a, b] =
     (let v = of_char a * 65536 + of_char b * 256 in
      [b64_char (v div 262144), b64_char (v div 4096), b64_char (v div 64), CHR ''=''])"
| "base64_EncodeToString [a] =
     (let v = of_char a * 65536 in
      [b64_char (v div 262144), b64_char (v div 4096), CHR ''='', CHR ''=''])"
| "base64_EncodeToString [] = []"

subsection \<open>Configuration and \<open>Prepare\<close>\<close>

record Config =
  RestartTimeout :: int
  Username :: string
  Password :: string
  SearchCriteria :: string
  Filters :: "string list option"
  UpdateLimit :: int

text \<open>
  \<open>Filters\<close> is a Go slice: \<open>None\<close> is the nil slice, \<open>Some fs\<close> a slice that is
  not nil (\<open>Some []\<close> is the empty slice that is not nil).
\<close>

definition Hour :: int where
  "Hour = 3600 * 1000000000"

text \<open>
  \<open>Prepare\<close> first lets \<open>config.Decode\<close> (Packer's decoder, a collaborator) fill the
  configuration from the raw template values. The decoder is the parameter \<open>decode\<close>:
  it returns its error, if any, and the configuration as it left it.
\<close>

definition Prepare ::
  "(Config \<Rightarrow> 'raw \<Rightarrow> error option \<times> Config) \<Rightarrow> Config \<Rightarrow> 'raw \<Rightarrow> error option \<times> Config"
where
  "Prepare decode config raws =
     (case decode config raws of
        (Some err, c) \<Rightarrow> (Some err, c)
      | (None, c0) \<Rightarrow>
          (let c1 = (if RestartTimeout c0 = 0 then c0\<lparr>RestartTimeout := 4 * Hour\<rparr> else c0);
               c2 = (if Username c1 = [] then c1\<lparr>Username := ''SYSTEM''\<rparr> else c1);
               errs = (if Username c2 = []
                       then Some (MultiError [ErrorMsg ''Must supply an 'username''])
                       else None);
               c3 = (if UpdateLimit c2 = 0 then c2\<lparr>UpdateLimit := 1000\<rparr> else c2)
           in (errs, c3)))"

subsection \<open>Remote paths and commands\<close>

definition elevatedPath :: string where
  "elevatedPath = ''C:/Windows/Temp/packer-windows-update-elevated.ps1''"

definition elevatedCommand :: string where
  "elevatedCommand = ''PowerShell -ExecutionPolicy Bypass -OutputFormat Text -File C:/Windows/Temp/packer-windows-update-elevated.ps1''"

definition windowsUpdatePath :: string where
  "windowsUpdatePath = ''C:/Windows/Temp/packer-windows-update.ps1''"

definition pendingRebootElevatedPath :: string where
  "pendingRebootElevatedPath = ''C:/Windows/Temp/packer-windows-update-pending-reboot-elevated.ps1''"

definition pendingRebootElevatedCommand :: string where
  "pendingRebootElevatedCommand = ''PowerShell -ExecutionPolicy Bypass -OutputFormat Text -File C:/Windows/Temp/packer-windows-update-pending-reboot-elevated.ps1''"

definition restartCommand :: string where
  "restartCommand = ''shutdown.exe -f -r -t 0 -c '' @ [CHR 0x22] @ ''packer restart'' @ [CHR 0x22]"

definition testRestartCommand :: string where
  "testRestartCommand = ''shutdown.exe -f -r -t 60 -c '' @ [CHR 0x22] @ ''packer restart test'' @ [CHR 0x22]"

definition abortTestRestartCommand :: string where
  "abortTestRestartCommand = ''shutdown.exe -a''"

definition retryableDelay :: int where
  "retryableDelay = 5 * 1000000000"

subsection \<open>The command encoder\<close>

definition escapePowerShellString :: "string \<Rightarrow> string" where
  "escapePowerShellString v =
     [CHR 0x27] @ strings_Replace v [CHR 0x27] [CHR 0x27, CHR 0x27] @ [CHR 0x27]"

definition searchCriteriaArgument :: "string \<Rightarrow> string" where
  "searchCriteriaArgument searchCriteria =
     (if searchCriteria = [] then []
      else '' -SearchCriteria '' @ escapePowerShellString searchCriteria)"

text \<open>The \<open>for i, filter := range filters\<close> loop, writing to the buffer.\<close>

fun filters_loop :: "nat \<Rightarrow> string list \<Rightarrow> string \<Rightarrow> string" where
  "filters_loop i [] buffer = buffer"
| "filters_loop i (f # fs) buffer =
     filters_loop (Suc i) fs
       ((if i > 0 then buffer @ '','' else buffer) @ escapePowerShellString f)"

definition filtersArgument :: "string list option \<Rightarrow> string" where
  "filtersArgument filters =
     (case filters of
        None \<Rightarrow> []
      | Some fs \<Rightarrow> filters_loop 0 fs '' -Filters '')"

text \<open>
  The script invocation that \<open>windowsUpdateCommand\<close> formats with
  \<open>"%s%s%s -UpdateLimit %d"\<close> and then encodes.
\<close>

definition windowsUpdateInvocation :: "Config \<Rightarrow> string" where
  "windowsUpdateInvocation config =
     windowsUpdatePath @ searchCriteriaArgument (SearchCriteria config)
       @ filtersArgument (Filters config) @ '' -UpdateLimit '' @ fmt_d (UpdateLimit config)"

definition windowsUpdateCommand :: "Config \<Rightarrow> string" where
  "windowsUpdateCommand config =
     ''PowerShell -ExecutionPolicy Bypass -OutputFormat Text -EncodedCommand ''
       @ base64_EncodeToString (encodeUtf16Le (windowsUpdateInvocation config))"

definition windowsUpdateCheckForRebootRequiredCommand :: "Config \<Rightarrow> string" where
  "windowsUpdateCheckForRebootRequiredCommand config =
     ''PowerShell -ExecutionPolicy Bypass -OutputFormat Text -EncodedCommand ''
       @ base64_EncodeToString (encodeUtf16Le (windowsUpdatePath @ '' -OnlyCheckForRebootRequired''))"

subsection \<open>The collaborators\<close>

text \<open>
  Everything the provisioner does to the outside is a call to a collaborator: it says a
  line on the UI, prints to standard output, uploads a file, runs a remote command and
  waits for it, and (inside the retry executor) starts a bounded retry and sleeps. The
  state of a run is the list of these calls so far, oldest first.
\<close>

datatype event =
    Say string
  | Printf string error
  | Upload string string
  | Run string
  | RetryStart int int
  | Sleep int

text \<open>
  The options handed to the elevated-script template (\<open>elevatedOptions\<close>). The
  template is defined beside the provisioner; its rendering is a parameter of the
  environment below.
\<close>

record elevatedOptions =
  optUsername :: string
  optPassword :: string
  optTaskDescription :: string
  optTaskName :: string
  optCommand :: string

datatype retry_signal = Proceed | BudgetElapsed | Cancelled

text \<open>
  The environment answers every call as a function of the calls made so far, which makes
  it an arbitrary deterministic environment:
  \<^item> \<open>run_result h cmd\<close>: what \<open>RemoteCmd.RunWithUi\<close> gives for \<open>cmd\<close> after the
    history \<open>h\<close>: a transport error, or the exit status of the remote command;
  \<^item> \<open>upload_result h path body\<close>: the error of \<open>comm.Upload\<close>, if any;
  \<^item> \<open>render_elevated opts\<close>: \<open>elevatedTemplate.Execute\<close>, an error or the rendered
    script;
  \<^item> \<open>new_uuid h\<close>: \<open>uuid.TimeOrderedUUID()\<close>;
  \<^item> \<open>asset name\<close>: \<open>MustAsset name\<close>, the bundled script;
  \<^item> \<open>signal h\<close>: whether, after the history \<open>h\<close> (which holds the start of the
    running retry with its budget, and every sleep), the retry budget has elapsed or the
    caller's context is cancelled.
\<close>

record env =
  run_result :: "event list \<Rightarrow> string \<Rightarrow> error + int"
  upload_result :: "event list \<Rightarrow> string \<Rightarrow> string \<Rightarrow> error option"
  render_elevated :: "elevatedOptions \<Rightarrow> error + string"
  new_uuid :: "event list \<Rightarrow> string"
  asset :: "string \<Rightarrow> string"
  signal :: "event list \<Rightarrow> retry_signal"

text \<open>\<open>cmd.RunWithUi(ctx, comm, ui)\<close> followed by \<open>cmd.ExitStatus()\<close>.\<close>

definition RunWithUi :: "env \<Rightarrow> string \<Rightarrow> event list \<Rightarrow> (error + int) \<times> event list" where
  "RunWithUi e cmd h = (run_result e h cmd, h @ [Run cmd])"

text \<open>\<open>comm.Upload(path, body, nil)\<close>.\<close>

definition comm_Upload :: "env \<Rightarrow> string \<Rightarrow> string \<Rightarrow> event list \<Rightarrow> error option \<times> event list" where
  "comm_Upload e path body h = (upload_result e h path body, h @ [Upload path body])"

subsection \<open>The retry executor\<close>

text \<open>
  Modelled from the spec: the Retry Executor (\<open>retry.Config.Run\<close> of Packer's
  \<open>common/retry\<close> package, which is not among the sources). It invokes the action; on
  success it returns at once; on an error it stops and surfaces the last error when the
  budget has elapsed or the caller has cancelled, and otherwise waits the fixed delay
  and tries again. When the budget or the cancellation fires before any attempt has
  completed, it surfaces a dedicated indicator. The loop need not end, so it is a
  partial function: \<open>None\<close> is a run that never returns.
\<close>

partial_function (option) retry_loop ::
  "env \<Rightarrow> int \<Rightarrow> (event list \<Rightarrow> error option \<times> event list) \<Rightarrow> event list
    \<Rightarrow> (error option \<times> event list) option"
where
  "retry_loop e delay action h =
     (case action h of
        (None, h') \<Rightarrow> Some (None, h')
      | (Some err, h') \<Rightarrow>
          (case signal e h' of
             Proceed \<Rightarrow> retry_loop e delay action (h' @ [Sleep delay])
           | BudgetElapsed \<Rightarrow> Some (Some err, h')
           | Cancelled \<Rightarrow> Some (Some err, h')))"

definition retry_Run ::
  "env \<Rightarrow> int \<Rightarrow> int \<Rightarrow> (event list \<Rightarrow> error option \<times> event list) \<Rightarrow> event list
    \<Rightarrow> (error option \<times> event list) option"
where
  "retry_Run e delay budget action h =
     (let h0 = h @ [RetryStart delay budget] in
      case signal e h0 of
        Proceed \<Rightarrow> retry_loop e delay action h0
      | BudgetElapsed \<Rightarrow> Some (Some RetryTimeout, h0)
      | Cancelled \<Rightarrow> Some (Some RetryCancelled, h0))"

subsection \<open>\<open>update\<close>, \<open>restart\<close>, \<open>retryable\<close> and \<open>Provision\<close>\<close>

definition retryable ::
  "env \<Rightarrow> Config \<Rightarrow> (event list \<Rightarrow> error option \<times> event list) \<Rightarrow> event list
    \<Rightarrow> (error option \<times> event list) option"
where
  "retryable e config f h = retry_Run e retryableDelay (RestartTimeout config) f h"

text \<open>
  \<open>update\<close> returns \<open>(restartPending, err)\<close>: \<open>Inr restartPending\<close> when \<open>err\<close> is
  nil, \<open>Inl err\<close> otherwise.
\<close>

definition update :: "env \<Rightarrow> event list \<Rightarrow> (error + bool) \<times> event list" where
  "update e h =
     (let h1 = h @ [Say ''Running Windows update...''] in
      case RunWithUi e elevatedCommand h1 of
        (Inl err, h2) \<Rightarrow> (Inl err, h2)
      | (Inr exitStatus, h2) \<Rightarrow>
          (if exitStatus = 0 then (Inr False, h2)
           else if exitStatus = 101 then (Inr True, h2)
           else (Inl (ErrorMsg (''Windows update script exited with non-zero exit status: ''
                                 @ fmt_d exitStatus)), h2)))"

text \<open>The first closure of \<open>restart\<close>: one attempt to restart the machine.\<close>

definition restart_attempt :: "env \<Rightarrow> event list \<Rightarrow> error option \<times> event list" where
  "restart_attempt e h =
     (case RunWithUi e restartCommand h of
        (Inl err, h1) \<Rightarrow> (Some err, h1)
      | (Inr exitStatus, h1) \<Rightarrow>
          (if exitStatus \<noteq> 0
           then (Some (ErrorMsg (''Failed to restart the machine with exit status: ''
                                  @ fmt_d exitStatus)), h1)
           else (None, h1)))"

text \<open>
  The second closure of \<open>restart\<close>: one attempt to see the machine back (the test
  restart, aborted at once) and settled (the pending-reboot check).
\<close>

definition available_attempt :: "env \<Rightarrow> event list \<Rightarrow> error option \<times> event list" where
  "available_attempt e h =
     (case RunWithUi e testRestartCommand h of
        (Inl err, h1) \<Rightarrow> (Some err, h1)
      | (Inr exitStatus, h1) \<Rightarrow>
          (if exitStatus \<noteq> 0
           then (Some (ErrorMsg (''Machine not yet available (exit status ''
                                  @ fmt_d exitStatus @ '')'')), h1)
           else
             (case RunWithUi e abortTestRestartCommand h1 of
                (Inl err, h2) \<Rightarrow> (Some err, h2)
              | (Inr _, h2) \<Rightarrow>
                  (case RunWithUi e pendingRebootElevatedCommand h2 of
                     (Inl err, h3) \<Rightarrow> (Some err, h3)
                   | (Inr exitStatus', h3) \<Rightarrow>
                       (if exitStatus' \<noteq> 0
                        then (Some (ErrorMsg (''Machine not yet available (exit status ''
                                               @ fmt_d exitStatus' @ '')'')), h3)
                        else (None, h3))))))"

definition restart :: "env \<Rightarrow> Config \<Rightarrow> event list \<Rightarrow> (error option \<times> event list) option" where
  "restart e config h =
     (case retryable e config (restart_attempt e) (h @ [Say ''Restarting the machine...'']) of
        None \<Rightarrow> None
      | Some (Some err, h1) \<Rightarrow> Some (Some err, h1)
      | Some (None, h1) \<Rightarrow>
          retryable e config (available_attempt e)
            (h1 @ [Say ''Waiting for machine to become available...'']))"

text \<open>The \<open>for\<close> loop at the end of \<open>Provision\<close>.\<close>

partial_function (option) provision_loop ::
  "env \<Rightarrow> Config \<Rightarrow> event list \<Rightarrow> (error option \<times> event list) option"
where
  "provision_loop e config h =
     (case update e h of
        (Inl err, h1) \<Rightarrow> Some (Some err, h1)
      | (Inr restartPending, h1) \<Rightarrow>
          (if \<not> restartPending then Some (None, h1)
           else
             (case restart e config h1 of
                None \<Rightarrow> None
              | Some (Some err, h2) \<Rightarrow> Some (Some err, h2)
              | Some (None, h2) \<Rightarrow> provision_loop e config h2)))"

definition Provision :: "env \<Rightarrow> Config \<Rightarrow> event list \<Rightarrow> (error option \<times> event list) option" where
  "Provision e config h =
     (let h1 = h @ [Say ''Uploading the Windows update elevated script...''] in
      case render_elevated e
             \<lparr>optUsername = Username config, optPassword = Password config,
              optTaskDescription = ''Packer Windows update elevated task'',
              optTaskName = ''packer-windows-update-'' @ new_uuid e h1,
              optCommand = windowsUpdateCommand config\<rparr> of
        Inl err \<Rightarrow> Some (Some err, h1 @ [Printf ''Error creating elevated template: %s'' err])
      | Inr buffer \<Rightarrow>
          (case comm_Upload e elevatedPath buffer h1 of
             (Some err, h2) \<Rightarrow> Some (Some err, h2)
           | (None, h2) \<Rightarrow>
               (let h3 = h2 @ [Say ''Uploading the Windows update check for reboot required elevated script...''] in
                case render_elevated e
                       \<lparr>optUsername = Username config, optPassword = Password config,
                        optTaskDescription = ''Packer Windows update pending reboot elevated task'',
                        optTaskName = ''packer-windows-update-pending-reboot-'' @ new_uuid e h3,
                        optCommand = windowsUpdateCheckForRebootRequiredCommand config\<rparr> of
                  Inl err \<Rightarrow>
                    Some (Some err, h3 @ [Printf ''Error creating elevated template: %s'' err])
                | Inr buffer' \<Rightarrow>
                    (case comm_Upload e pendingRebootElevatedPath buffer' h3 of
                       (Some err, h4) \<Rightarrow> Some (Some err, h4)
                     | (None, h4) \<Rightarrow>
                         (let h5 = h4 @ [Say ''Uploading the Windows update script...''] in
                          case comm_Upload e windowsUpdatePath (asset e ''windows-update.ps1'') h5 of
                            (Some err, h6) \<Rightarrow> Some (Some err, h6)
                          | (None, h6) \<Rightarrow> provision_loop e config h6)))))"

subsection \<open>Traces of the restart sequence\<close>

text \<open>
  The trace of one bounded retry: the traces of its attempts, with the sleep of the
  fixed delay between two attempts.
\<close>

fun joined :: "int \<Rightarrow> event list list \<Rightarrow> event list" where
  "joined d [] = []"
| "joined d [a] = a"
| "joined d (a # b # as) = a @ [Sleep d] @ joined d (b # as)"

text \<open>
  What one attempt of the second closure of \<open>restart\<close> can leave in the trace: the
  probe alone, the probe and its abort, or the probe, its abort and the pending-reboot
  check.
\<close>

definition available_attempt_traces :: "event list set" where
  "available_attempt_traces =
     {[Run testRestartCommand],
      [Run testRestartCommand, Run abortTestRestartCommand],
      [Run testRestartCommand, Run abortTestRestartCommand, Run pendingRebootElevatedCommand]}"

section \<open>Concrete inputs\<close>

text \<open>A decoder that succeeds and stores the raw value as the configuration.\<close>

definition decode_raw :: "Config \<Rightarrow> Config \<Rightarrow> error option \<times> Config" where
  "decode_raw config raws = (None, raws)"

definition config_unset :: Config where
  "config_unset = \<lparr>RestartTimeout = 0, Username = [], Password = ''secret'',
     SearchCriteria = [], Filters = None, UpdateLimit = 0\<rparr>"

definition config_set :: Config where
  "config_set = \<lparr>RestartTimeout = 60000000000, Username = ''vagrant'', Password = ''secret'',
     SearchCriteria = ''IsInstalled=0'', Filters = Some [''include:$true''], UpdateLimit = 25\<rparr>"

section \<open>Properties\<close>

subsection \<open>Prepare\<close>

lemma Prepare_decoded:
  assumes "decode config raws = (None, c)"
  shows "Prepare decode config raws =
    (if (if Username c = [] then ''SYSTEM'' else Username c) = []
     then Some (MultiError [ErrorMsg ''Must supply an 'username'']) else None,
     c\<lparr>RestartTimeout := (if RestartTimeout c = 0 then 4 * Hour else RestartTimeout c),
       Username := (if Username c = [] then ''SYSTEM'' else Username c),
       UpdateLimit := (if UpdateLimit c = 0 then 1000 else UpdateLimit c)\<rparr>)"
  using assms by (simp add: Prepare_def Let_def)

text \<open>
  C9. After a successful decode, \<open>Prepare\<close> returns with the defaults filled in: a
  restart timeout of 0 becomes 4 hours (14400000000000 ns), an empty user name becomes
  \<open>SYSTEM\<close>, an update limit of 0 becomes 1000; fields that are set keep their values,
  and the password, the search criteria and the filters are never touched.
\<close>

theorem Prepare_defaults:
  assumes "decode config raws = (None, c)"
  shows "\<exists>c'. Prepare decode config raws = (None, c')
    \<and> RestartTimeout c' = (if RestartTimeout c = 0 then 14400000000000 else RestartTimeout c)
    \<and> Username c' = (if Username c = [] then ''SYSTEM'' else Username c)
    \<and> UpdateLimit c' = (if UpdateLimit c = 0 then 1000 else UpdateLimit c)
    \<and> Password c' = Password c
    \<and> SearchCriteria c' = SearchCriteria c
    \<and> Filters c' = Filters c"
  using assms by (simp add: Prepare_decoded Hour_def)

theorem Prepare_defaults_witness:
  "decode_raw config_set config_unset = (None, config_unset)
   \<and> (\<exists>c'. Prepare decode_raw config_set config_unset = (None, c')
      \<and> RestartTimeout c' = 14400000000000 \<and> Username c' = ''SYSTEM'' \<and> UpdateLimit c' = 1000
      \<and> Password c' = ''secret'' \<and> SearchCriteria c' = [] \<and> Filters c' = None)"
  using Prepare_defaults [of decode_raw config_set config_unset config_unset]
  by (simp add: decode_raw_def config_unset_def)

text \<open>
  C10. The user name is defaulted to \<open>SYSTEM\<close> before it is tested for emptiness, so the
  branch that reports a missing user name is never taken: whenever the decoder succeeds,
  \<open>Prepare\<close> returns no error.
\<close>

theorem Prepare_never_missing_username:
  assumes "fst (decode config raws) = None"
  shows "fst (Prepare decode config raws) = None"
proof -
  obtain c where "decode config raws = (None, c)"
    using assms by (cases "decode config raws") auto
  then show ?thesis
    by (simp add: Prepare_decoded)
qed

theorem Prepare_never_missing_username_witness:
  "fst (decode_raw config_set config_unset) = None
   \<and> fst (Prepare decode_raw config_set config_unset) = None"
  using Prepare_never_missing_username [of decode_raw config_set config_unset]
  by (simp add: decode_raw_def)

subsection \<open>The retry executor and the restart sequence\<close>

lemma joined_Cons: "as \<noteq> [] \<Longrightarrow> joined d (a # as) = a @ [Sleep d] @ joined d as"
  by (cases as) auto

lemma retry_loop_attempts:
  assumes "retry_loop e d action h = Some y"
    and "\<And>h r h'. action h = (r, h') \<Longrightarrow> \<exists>a. a \<in> A \<and> h' = h @ a \<and> (r = None \<longrightarrow> a \<in> S)"
  shows "\<exists>as a. snd y = h @ joined d (as @ [a]) \<and> set as \<subseteq> A \<and> a \<in> A \<and> (fst y = None \<longrightarrow> a \<in> S)"
  using assms
proof (induction e d action h y rule: retry_loop.raw_induct [rotated 1, consumes 1, case_names step])
  case (step rl e d action h y)
  obtain r1 h1 where f: "action h = (r1, h1)" by force
  from "step.prems" [OF f] obtain a where a: "a \<in> A" "h1 = h @ a" "r1 = None \<longrightarrow> a \<in> S" by auto
  show ?case
  proof (cases "r1 = None \<or> signal e h1 \<noteq> Proceed")
    case True
    then have "y = (r1, h1)"
      using "step.hyps" f by (auto split: option.splits retry_signal.splits)
    then show ?thesis
      using a by (intro exI [of _ "[]"] exI [of _ a]) simp
  next
    case False
    then have rec: "rl e d action (h1 @ [Sleep d]) = Some y"
      using "step.hyps" f by (auto split: option.splits retry_signal.splits)
    have "\<exists>as b. snd y = (h1 @ [Sleep d]) @ joined d (as @ [b]) \<and> set as \<subseteq> A \<and> b \<in> A
        \<and> (fst y = None \<longrightarrow> b \<in> S)"
      by (rule "step.IH" [OF rec]) (rule "step.prems", assumption)
    then obtain as b where
      b: "snd y = (h1 @ [Sleep d]) @ joined d (as @ [b])" "set as \<subseteq> A" "b \<in> A" "fst y = None \<longrightarrow> b \<in> S"
      by auto
    have "snd y = h @ joined d ((a # as) @ [b])"
      using b(1) a(2) by (simp add: joined_Cons)
    then show ?thesis
      using a(1) b(2,3,4) by (intro exI [of _ "a # as"] exI [of _ b]) simp
  qed
qed

lemma restart_attempt_step:
  assumes "restart_attempt e h = (r, h')"
  shows "\<exists>a. a \<in> {[Run restartCommand]} \<and> h' = h @ a \<and> (r = None \<longrightarrow> a \<in> {[Run restartCommand]})"
  using assms
  by (auto simp: restart_attempt_def RunWithUi_def split: sum.splits if_splits)

lemma available_attempt_step:
  assumes "available_attempt e h = (r, h')"
  shows "\<exists>a. a \<in> available_attempt_traces \<and> h' = h @ a
    \<and> (r = None \<longrightarrow> a \<in> {[Run testRestartCommand, Run abortTestRestartCommand,
                              Run pendingRebootElevatedCommand]})"
  using assms
  by (auto simp: available_attempt_def available_attempt_traces_def RunWithUi_def
      split: sum.splits if_splits)

lemma retry_Run_attempts:
  assumes "retry_Run e d b action h = Some (r, h')"
    and "\<And>h r h'. action h = (r, h') \<Longrightarrow> \<exists>a. a \<in> A \<and> h' = h @ a \<and> (r = None \<longrightarrow> a \<in> S)"
  shows "\<exists>as. h' = h @ [RetryStart d b] @ joined d as \<and> set as \<subseteq> A
    \<and> (r = None \<longrightarrow> as \<noteq> [] \<and> last as \<in> S)"
proof (cases "signal e (h @ [RetryStart d b])")
  case Proceed
  then have "retry_loop e d action (h @ [RetryStart d b]) = Some (r, h')"
    using assms(1) by (simp add: retry_Run_def)
  from retry_loop_attempts [OF this assms(2)] obtain as a where
    "h' = (h @ [RetryStart d b]) @ joined d (as @ [a])" "set as \<subseteq> A" "a \<in> A" "r = None \<longrightarrow> a \<in> S"
    by auto
  then show ?thesis
    by (intro exI [of _ "as @ [a]"]) simp
next
  case BudgetElapsed
  then show ?thesis
    using assms(1) by (intro exI [of _ "[]"]) (auto simp: retry_Run_def)
next
  case Cancelled
  then show ?thesis
    using assms(1) by (intro exI [of _ "[]"]) (auto simp: retry_Run_def)
qed

lemma restart_structure:
  assumes "restart e config h = Some (r, h')"
  shows "\<exists>as bs. set as \<subseteq> {[Run restartCommand]} \<and> set bs \<subseteq> available_attempt_traces
    \<and> (r \<noteq> None \<and> bs = []
         \<and> h' = h @ [Say ''Restarting the machine...'',
                      RetryStart retryableDelay (RestartTimeout config)]
                   @ joined retryableDelay as
       \<or> as \<noteq> []
         \<and> h' = h @ [Say ''Restarting the machine...'',
                      RetryStart retryableDelay (RestartTimeout config)]
                   @ joined retryableDelay as
                   @ [Say ''Waiting for machine to become available...'',
                      RetryStart retryableDelay (RestartTimeout config)]
                   @ joined retryableDelay bs
         \<and> (r = None \<longrightarrow> bs \<noteq> []
              \<and> last bs = [Run testRestartCommand, Run abortTestRestartCommand,
                           Run pendingRebootElevatedCommand]))"
proof -
  let ?R = "RetryStart retryableDelay (RestartTimeout config)"
  let ?h0 = "h @ [Say ''Restarting the machine...'']"
  obtain r1 h1 where first: "retryable e config (restart_attempt e) ?h0 = Some (r1, h1)"
    using assms by (auto simp: restart_def split: option.splits)
  then have run1: "retry_Run e retryableDelay (RestartTimeout config) (restart_attempt e) ?h0 = Some (r1, h1)"
    by (simp add: retryable_def)
  have "\<exists>as. h1 = ?h0 @ [?R] @ joined retryableDelay as \<and> set as \<subseteq> {[Run restartCommand]}
      \<and> (r1 = None \<longrightarrow> as \<noteq> [] \<and> last as \<in> {[Run restartCommand]})"
    by (rule retry_Run_attempts [OF run1]) (rule restart_attempt_step, assumption)
  then obtain as where
    as: "h1 = ?h0 @ [?R] @ joined retryableDelay as" "set as \<subseteq> {[Run restartCommand]}"
      "r1 = None \<longrightarrow> as \<noteq> [] \<and> last as \<in> {[Run restartCommand]}"
    by auto
  show ?thesis
  proof (cases r1)
    case (Some err)
    then have "r = Some err" "h' = h1"
      using assms first by (auto simp: restart_def)
    then show ?thesis
      using as by (intro exI [of _ as] exI [of _ "[]"]) simp
  next
    case None
    let ?h2 = "h1 @ [Say ''Waiting for machine to become available...'']"
    from None have "retryable e config (available_attempt e) ?h2 = Some (r, h')"
      using assms first by (auto simp: restart_def)
    then have run2: "retry_Run e retryableDelay (RestartTimeout config) (available_attempt e) ?h2 = Some (r, h')"
      by (simp add: retryable_def)
    have "\<exists>bs. h' = ?h2 @ [?R] @ joined retryableDelay bs \<and> set bs \<subseteq> available_attempt_traces
        \<and> (r = None \<longrightarrow> bs \<noteq> [] \<and> last bs \<in> {[Run testRestartCommand, Run abortTestRestartCommand,
                              Run pendingRebootElevatedCommand]})"
      by (rule retry_Run_attempts [OF run2]) (rule available_attempt_step, assumption)
    then obtain bs where
      bs: "h' = ?h2 @ [?R] @ joined retryableDelay bs" "set bs \<subseteq> available_attempt_traces"
        "r = None \<longrightarrow> bs \<noteq> [] \<and> last bs \<in> {[Run testRestartCommand, Run abortTestRestartCommand,
                              Run pendingRebootElevatedCommand]}"
      by auto
    show ?thesis
      using as bs None by (intro exI [of _ as] exI [of _ bs]) simp
  qed
qed

end
